theory Spec2Isabelle
  imports Complex_Main "HOL-Library.Word"
begin

section \<open>JavaScript values seen by \<open>PostsListPage.tsx\<close>\<close>

text \<open>
  The body of a response after \<open>res.json()\<close>. The type annotation
  \<open>PageResponse<Post>\<close> of line 82 is erased at run time, so \<open>data\<close> is whatever
  JSON value the server sent. Its numbers are integers here (ids, counters, totals); the
  code passes them on and computes nothing with them.
\<close>

datatype json =
    JNull
  | JBool bool
  | JNum int
  | JStr string
  | JArr "json list"
  | JObj "(string \<times> json) list"

text \<open>What a property read yields, and what the success continuation receives.\<close>

datatype jsval = Undefined | Val json

datatype exn =
    TypeError
  | SyntaxError
  | JsError string

text \<open>
  \<open>data.content\<close> and \<open>data.totalElements\<close> (line 85): reading a property of
  \<open>null\<close> throws a TypeError, an object yields the property or \<open>undefined\<close>, and
  booleans, numbers, strings and arrays have no property of these two names.
\<close>

definition get_field :: "json \<Rightarrow> string \<Rightarrow> exn + jsval" where
  "get_field data k =
     (case data of
        JNull \<Rightarrow> Inl TypeError
      | JObj kvs \<Rightarrow> Inr (case map_of kvs k of None \<Rightarrow> Undefined | Some v \<Rightarrow> Val v)
      | _ \<Rightarrow> Inr Undefined)"

subsection \<open>Row numbers and page sizes\<close>

text \<open>
  \<open>startRow\<close>, \<open>endRow\<close> and \<open>pageSize\<close> are JavaScript numbers, that is IEEE
  doubles. The model takes for them the integers from \<open>-2^52\<close> to \<open>2^52 - 1\<close>: signed
  words of 53 bits, read by \<open>sint\<close>. On these the double arithmetic of the code is
  exact. The sum of two of them lies within \<open>2^53\<close> in magnitude, where every integer is
  a double; their quotient, rounded to a double, has the floor of the exact quotient; and
  a template literal prints an integer of this size in plain decimal notation. Fractions,
  \<open>NaN\<close> and integers beyond this range are not inputs of the model: there doubles
  round, and from \<open>10^21\<close> on they print with an exponent.
\<close>

type_synonym int53 = "53 word"

text \<open>
  The result of \<open>Math.floor(startRow / size)\<close> (line 75). Division by zero does not
  throw in JavaScript: it gives \<open>NaN\<close> or an infinity. Otherwise the result is the
  integer quotient rounded towards minus infinity, which \<open>div\<close> on \<open>int\<close> is; it fits
  a signed word of 54 bits (lemma \<open>sint_quotient\<close>).
\<close>

datatype number = Fin "54 word" | NaN | Infinity | NegInfinity

definition floor_div :: "int53 \<Rightarrow> int53 \<Rightarrow> number" where
  "floor_div a b =
     (if b \<noteq> 0 then Fin (word_of_int (sint a div sint b))
      else if a = 0 then NaN
      else if 0 < sint a then Infinity
      else NegInfinity)"

subsection \<open>Numbers inside the template literal of line 78\<close>

text \<open>
  The decimal notation of an integer. The model prints numbers of the range above only.
\<close>

definition digit :: "nat \<Rightarrow> char" where
  "digit d = ''0123456789'' ! d"

fun decimal_nat :: "nat \<Rightarrow> string" where
  "decimal_nat n = (if n < 10 then [digit n] else decimal_nat (n div 10) @ [digit (n mod 10)])"

declare decimal_nat.simps [simp del]

definition decimal :: "int \<Rightarrow> string" where
  "decimal i = (if i < 0 then CHR ''-'' # decimal_nat (nat (- i)) else decimal_nat (nat i))"

text \<open>\<open>${page}\<close> and \<open>${size}\<close>: what the template literal prints for the two numbers.\<close>

fun show_number :: "number \<Rightarrow> string" where
  "show_number (Fin q) = decimal (sint q)"
| "show_number NaN = ''NaN''"
| "show_number Infinity = ''Infinity''"
| "show_number NegInfinity = ''-Infinity''"

definition show_size :: "int53 \<Rightarrow> string" where
  "show_size sz = decimal (sint sz)"

definition API_BASE :: string where
  "API_BASE = ''http://localhost:8088''"

definition posts_url :: "number \<Rightarrow> int53 \<Rightarrow> string" where
  "posts_url page sz =
     API_BASE @ ''/api/posts?page='' @ show_number page @ ''&size='' @ show_size sz"

section \<open>The environment: \<open>fetch\<close> and the row-window request\<close>

text \<open>
  A response as far as the code reads it: the status (\<open>res.ok\<close> is true exactly for
  200..299) and the outcome of \<open>res.json()\<close>, \<open>None\<close> when the body is not JSON and
  the promise rejects with a SyntaxError.
\<close>

record response =
  status :: nat
  body :: "json option"

definition ok :: "response \<Rightarrow> bool" where
  "ok res = (200 \<le> status res \<and> status res \<le> 299)"

text \<open>\<open>fetch(url)\<close> settles: it rejects (\<open>Inl\<close>) or resolves to a response.\<close>

type_synonym fetch = "string \<Rightarrow> exn + response"

text \<open>
  \<open>IGetRowsParams\<close> as the code uses it. Both row bounds may be absent (the code
  guards them with \<open>??\<close>). A continuation returns normally (\<open>None\<close>) or throws.
\<close>

record IGetRowsParams =
  startRow :: "int53 option"
  endRow :: "int53 option"
  successCallback :: "jsval \<Rightarrow> jsval \<Rightarrow> exn option"
  failCallback :: "exn option"

text \<open>What one call of \<open>getRows\<close> does to the outside, in order.\<close>

datatype event =
    Fetch string
  | SuccessCallback jsval jsval
  | FailCallback

datatype promise = Resolved | Rejected exn

record result =
  trace :: "event list"
  settled :: promise

section \<open>The adapter: \<open>getRows\<close> (lines 68--89)\<close>

text \<open>
  Lines 70--75: the four constants \<open>(startRow, endRow, size, page)\<close>. The sum
  \<open>startRow + pageSize\<close> may need a 54th bit, so \<open>endRow\<close> is an \<open>int\<close>.
\<close>

definition getRows_consts ::
  "int53 \<Rightarrow> IGetRowsParams \<Rightarrow> int53 \<times> int \<times> int53 \<times> number" where
  "getRows_consts pageSize params =
     (let startRow = (case startRow params of None \<Rightarrow> 0 | Some s \<Rightarrow> s);
          endRow = (case endRow params of
                      None \<Rightarrow> sint startRow + sint pageSize
                    | Some e \<Rightarrow> sint e);
          size = pageSize;
          page = floor_div startRow size
      in (startRow, endRow, size, page))"

text \<open>
  The \<open>try\<close> block: the events it causes and the exception that leaves it, if any.
\<close>

definition getRows_try :: "int53 \<Rightarrow> fetch \<Rightarrow> IGetRowsParams \<Rightarrow> event list \<times> exn option" where
  "getRows_try pageSize fetch params =
     (let (startRow, endRow, size, page) = getRows_consts pageSize params;
          url = posts_url page size
      in (case fetch url of
             Inl e \<Rightarrow> ([Fetch url], Some e)
           | Inr res \<Rightarrow>
               if \<not> ok res then ([Fetch url], Some (JsError ''API error''))
               else
                 (case body res of
                    None \<Rightarrow> ([Fetch url], Some SyntaxError)
                  | Some data \<Rightarrow>
                      (case get_field data ''content'' of
                         Inl e \<Rightarrow> ([Fetch url], Some e)
                       | Inr content \<Rightarrow>
                           (case get_field data ''totalElements'' of
                              Inl e \<Rightarrow> ([Fetch url], Some e)
                            | Inr totalElements \<Rightarrow>
                                ([Fetch url, SuccessCallback content totalElements],
                                 successCallback params content totalElements))))))"

text \<open>
  The whole \<open>async\<close> function: the \<open>catch\<close> clause calls \<open>failCallback\<close>; an exception
  thrown there rejects the promise that \<open>getRows\<close> returns.
\<close>

definition getRows :: "int53 \<Rightarrow> fetch \<Rightarrow> IGetRowsParams \<Rightarrow> result" where
  "getRows pageSize fetch params =
     (case getRows_try pageSize fetch params of
        (tr, None) \<Rightarrow> \<lparr>trace = tr, settled = Resolved\<rparr>
      | (tr, Some e) \<Rightarrow>
          \<lparr>trace = tr @ [FailCallback],
           settled = (case failCallback params of None \<Rightarrow> Resolved | Some e' \<Rightarrow> Rejected e')\<rparr>)"

text \<open>The URL that a call requests (the template literal of line 78).\<close>

definition getRows_url :: "int53 \<Rightarrow> IGetRowsParams \<Rightarrow> string" where
  "getRows_url pageSize params =
     (let (startRow, endRow, size, page) = getRows_consts pageSize params
      in posts_url page size)"

text \<open>Reading a trace: the URLs fetched, and the continuations invoked.\<close>

fun fetches :: "event list \<Rightarrow> string list" where
  "fetches [] = []"
| "fetches (Fetch url # es) = url # fetches es"
| "fetches (e # es) = fetches es"

fun continuations :: "event list \<Rightarrow> event list" where
  "continuations [] = []"
| "continuations (Fetch url # es) = continuations es"
| "continuations (e # es) = e # continuations es"

fun successes :: "event list \<Rightarrow> (jsval \<times> jsval) list" where
  "successes [] = []"
| "successes (SuccessCallback rows cnt # es) = (rows, cnt) # successes es"
| "successes (e # es) = successes es"

text \<open>
  The answers of \<open>fetch\<close> on which the \<open>try\<close> block throws before it reaches the
  success continuation: a rejection, a status outside 200..299 (line 80), a body that is
  not JSON (line 82), and the body \<open>null\<close>, whose properties cannot be read (line 85).
\<close>

definition fetch_failed :: "exn + response \<Rightarrow> bool" where
  "fetch_failed r =
     (case r of
        Inl x \<Rightarrow> True
      | Inr res \<Rightarrow> \<not> ok res \<or> body res = None \<or> body res = Some JNull)"

subsection \<open>The declared shape of the body (lines 15--29)\<close>





section \<open>The datasource and the grid\<close>

text \<open>
  \<open>buildDatasource\<close> (lines 65--92) returns an object whose \<open>getRows\<close> closes over
  the \<open>pageSize\<close> of the render that built it. The closure is its code together with
  the captured value.
\<close>

datatype IDatasource = Datasource int53

definition buildDatasource :: "int53 \<Rightarrow> IDatasource" where
  "buildDatasource pageSize = Datasource pageSize"

fun getRows_of :: "IDatasource \<Rightarrow> fetch \<Rightarrow> IGetRowsParams \<Rightarrow> result" where
  "getRows_of (Datasource pageSize) fetch params = getRows pageSize fetch params"

text \<open>
  Modelled from the spec: the grid widget (ag-grid's \<open>GridApi\<close>) is an external
  collaborator whose code is not part of the repository. Of its state, the model keeps the
  options set through \<open>setGridOption\<close>, the installed datasource, the pagination page,
  the cached row blocks (keyed by their first row) and the calls received, in order.
  Each call is assumed infallible and to do what its name says.
\<close>

datatype api_call =
    SetGridOption string int53
  | SetDatasource IDatasource
  | PaginationGoToFirstPage
  | PurgeInfiniteCache

record GridApi =
  gridOptions :: "string \<rightharpoonup> int53"
  datasource :: "IDatasource option"
  paginationPage :: nat
  infiniteCache :: "(int \<times> json list) list"
  calls :: "api_call list"

definition setGridOption :: "string \<Rightarrow> int53 \<Rightarrow> GridApi \<Rightarrow> GridApi" where
  "setGridOption k v api =
     api\<lparr>gridOptions := (gridOptions api)(k \<mapsto> v), calls := calls api @ [SetGridOption k v]\<rparr>"

definition setDatasource :: "IDatasource \<Rightarrow> GridApi \<Rightarrow> GridApi" where
  "setDatasource ds api = api\<lparr>datasource := Some ds, calls := calls api @ [SetDatasource ds]\<rparr>"

definition paginationGoToFirstPage :: "GridApi \<Rightarrow> GridApi" where
  "paginationGoToFirstPage api =
     api\<lparr>paginationPage := 0, calls := calls api @ [PaginationGoToFirstPage]\<rparr>"

definition purgeInfiniteCache :: "GridApi \<Rightarrow> GridApi" where
  "purgeInfiniteCache api = api\<lparr>infiniteCache := [], calls := calls api @ [PurgeInfiniteCache]\<rparr>"

section \<open>The component \<open>PostsListPage\<close>\<close>

text \<open>
  The state that survives a render: \<open>pageSize\<close> (\<open>useState\<close>, line 36) and
  \<open>gridApiRef\<close> (\<open>useRef\<close>, line 34), which holds the grid once it is ready. A handler
  runs in the render of the current state, so it reads \<open>pageSize\<close> from the state.
\<close>

record PostsListPage =
  pageSize :: int53
  gridApiRef :: "GridApi option"

definition initial :: PostsListPage where
  "initial = \<lparr>pageSize = 10, gridApiRef = None\<rparr>"

text \<open>\<open>onGridReady\<close> (lines 94--104); \<open>api\<close> is \<open>e.api\<close>.\<close>

definition onGridReady :: "GridApi \<Rightarrow> PostsListPage \<Rightarrow> PostsListPage" where
  "onGridReady api st =
     st\<lparr>gridApiRef :=
          Some (setDatasource (buildDatasource (pageSize st))
                 (setGridOption ''paginationPageSize'' (pageSize st)
                   (setGridOption ''cacheBlockSize'' (pageSize st) api)))\<rparr>"

text \<open>\<open>onChangePageSize\<close> (lines 106--118).\<close>

definition onChangePageSize :: "int53 \<Rightarrow> PostsListPage \<Rightarrow> PostsListPage" where
  "onChangePageSize next st =
     (let st' = st\<lparr>pageSize := next\<rparr> in
      case gridApiRef st' of
        None \<Rightarrow> st'
      | Some api \<Rightarrow>
          st'\<lparr>gridApiRef :=
                Some (purgeInfiniteCache
                       (paginationGoToFirstPage
                         (setGridOption ''paginationPageSize'' next
                           (setGridOption ''cacheBlockSize'' next api))))\<rparr>)"

text \<open>
  A row-window request of the grid goes to the datasource installed in it; there is none
  to serve it before \<open>onGridReady\<close>.
\<close>

definition grid_getRows :: "PostsListPage \<Rightarrow> fetch \<Rightarrow> IGetRowsParams \<Rightarrow> result option" where
  "grid_getRows st fetch params =
     (case gridApiRef st of
        None \<Rightarrow> None
      | Some api \<Rightarrow>
          (case datasource api of
             None \<Rightarrow> None
           | Some ds \<Rightarrow> Some (getRows_of ds fetch params)))"

section \<open>Concrete inputs\<close>

text \<open>A row-window request whose continuations return normally.\<close>

definition window :: "int53 option \<Rightarrow> int53 option \<Rightarrow> IGetRowsParams" where
  "window s e = \<lparr>startRow = s, endRow = e, successCallback = (\<lambda>rows total. None), failCallback = None\<rparr>"

text \<open>The same request with continuations that both throw.\<close>

definition throwing :: "IGetRowsParams \<Rightarrow> IGetRowsParams" where
  "throwing params = params\<lparr>successCallback := (\<lambda>rows cnt. Some (JsError ''render'')),
                            failCallback := Some (JsError ''render'')\<rparr>"

text \<open>A server that answers every request with status 200 and the given body.\<close>

definition serve :: "json \<Rightarrow> fetch" where
  "serve j = (\<lambda>url. Inr \<lparr>status = 200, body = Some j\<rparr>)"

text \<open>A server that answers every request with the given status and a body that is not JSON.\<close>

definition answer_status :: "nat \<Rightarrow> fetch" where
  "answer_status code = (\<lambda>url. Inr \<lparr>status = code, body = None\<rparr>)"

definition post1 :: json where
  "post1 = JObj [(''id'', JNum 1), (''title'', JStr ''hello''), (''author'', JStr ''kim''),
                 (''createdAt'', JStr ''2024-01-01T00:00:00''), (''views'', JNum 7)]"

definition post2 :: json where
  "post2 = JObj [(''id'', JNum 2), (''title'', JStr ''again''), (''author'', JStr ''lee''),
                 (''createdAt'', JStr ''2024-01-02T00:00:00''), (''views'', JNum 0)]"

definition envelope :: json where
  "envelope = JObj [(''content'', JArr [post1, post2]), (''page'', JNum 0), (''size'', JNum 10),
                    (''totalElements'', JNum 42), (''totalPages'', JNum 5)]"

text \<open>A grid on its third page with one cached block, before any call of this component.\<close>

definition some_grid :: GridApi where
  "some_grid = \<lparr>gridOptions = Map.empty, datasource = None, paginationPage = 3,
                 infiniteCache = [(0, [post1, post2])], calls = []\<rparr>"

text \<open>The component after the grid, with page size 10, has become ready.\<close>

definition ready :: PostsListPage where
  "ready = onGridReady some_grid initial"

section \<open>Theorems\<close>

subsection \<open>What a call requests\<close>

lemma fetches_getRows: "fetches (trace (getRows n fetch params)) = [getRows_url n params]"
  by (auto simp: getRows_def getRows_try_def getRows_url_def Let_def
           split: prod.splits sum.splits option.splits)


lemmas url_eval =
  posts_url_def API_BASE_def show_size_def decimal_def decimal_nat.simps digit_def

lemma window_sel:
  "startRow (window s e) = s" "endRow (window s e) = e"
  "successCallback (window s e) = (\<lambda>rows cnt. None)" "failCallback (window s e) = None"
  by (simp_all add: window_def)

lemma consts_window_25: "getRows_consts 10 (window (Some 25) (Some 35)) = (25, 35, 10, Fin 2)"
  by (simp add: getRows_consts_def window_def floor_div_def)

subsection \<open>The quotient fits the word that holds it\<close>

lemma abs_div_le_pos:
  fixes a b :: int
  assumes "0 < b"
  shows "\<bar>a div b\<bar> \<le> \<bar>a\<bar>"
proof (cases "0 \<le> a")
  case True
  with assms have "0 \<le> a div b" by (simp add: pos_imp_zdiv_nonneg_iff)
  moreover from True assms have "a div b \<le> a div 1" by (intro zdiv_mono2) simp_all
  ultimately show ?thesis using True by simp
next
  case False
  with assms have "a div b < 0" by (simp add: div_neg_pos_less0)
  moreover from False assms have "a div 1 \<le> a div b" by (intro zdiv_mono2_neg) simp_all
  ultimately show ?thesis using False by simp
qed

lemma abs_div_le:
  fixes a b :: int
  assumes "b \<noteq> 0"
  shows "\<bar>a div b\<bar> \<le> \<bar>a\<bar>"
proof (cases "0 < b")
  case True
  then show ?thesis by (rule abs_div_le_pos)
next
  case False
  with assms have "0 < - b" by simp
  then have "\<bar>(- a) div (- b)\<bar> \<le> \<bar>- a\<bar>" by (rule abs_div_le_pos)
  then show ?thesis by simp
qed

lemma sint_quotient:
  fixes a b :: int53
  assumes "b \<noteq> 0"
  shows "sint (word_of_int (sint a div sint b) :: 54 word) = sint a div sint b"
proof -
  from assms have "sint b \<noteq> 0"
    using signed_word_eqI [of b 0] by auto
  then have q: "\<bar>sint a div sint b\<bar> \<le> \<bar>sint a\<bar>" by (rule abs_div_le)
  have lo: "- 4503599627370496 \<le> sint a" and hi: "sint a < 4503599627370496"
    using sint_ge [of a] sint_lt [of a] by simp_all
  from q lo hi have "- 9007199254740992 \<le> sint a div sint b" by linarith
  moreover from q lo hi have "sint a div sint b < 9007199254740992" by linarith
  ultimately show ?thesis
    by (simp add: sint_sbintrunc' signed_take_bit_int_eq_self)
qed

lemma floor_div_Fin:
  assumes "b \<noteq> 0"
  shows "\<exists>q. floor_div a b = Fin q \<and> sint q = sint a div sint b"
  using assms sint_quotient [of b a] by (simp add: floor_div_def)

subsection \<open>The URL determines the page and the size\<close>

text \<open>
  Decimal notation is injective and contains no \<open>&\<close>, so two requests for finite pages
  have the same URL only if they agree on the page index and on the size.
\<close>

lemma decimal_nat_nonempty: "decimal_nat n \<noteq> []"
  by (subst decimal_nat.simps) simp

lemma digit_inj: "a < 10 \<Longrightarrow> b < 10 \<Longrightarrow> digit a = digit b \<Longrightarrow> a = b"
proof -
  assume a: "a < 10" and b: "b < 10" and e: "digit a = digit b"
  have d: "distinct ''0123456789''" by simp
  have "length ''0123456789'' = 10" by simp
  with a b d e show "a = b"
    unfolding digit_def by (metis nth_eq_iff_index_eq)
qed

lemma digit_in: "d < 10 \<Longrightarrow> digit d \<in> set ''0123456789''"
  unfolding digit_def by (rule nth_mem) simp

lemma set_decimal_nat: "set (decimal_nat n) \<subseteq> set ''0123456789''"
proof (induction n rule: decimal_nat.induct)
  case (1 n)
  show ?case
  proof (cases "n < 10")
    case True
    then have "decimal_nat n = [digit n]" by (subst decimal_nat.simps) simp
    with True digit_in [of n] show ?thesis by simp
  next
    case False
    then have "decimal_nat n = decimal_nat (n div 10) @ [digit (n mod 10)]"
      by (subst decimal_nat.simps) simp
    moreover have "digit (n mod 10) \<in> set ''0123456789''" by (rule digit_in) simp
    ultimately show ?thesis using 1 [OF False] by simp
  qed
qed

lemma decimal_nat_inj: "decimal_nat a = decimal_nat b \<Longrightarrow> a = b"
proof (induction a arbitrary: b rule: decimal_nat.induct)
  case (1 n)
  have n: "decimal_nat n = (if n < 10 then [digit n] else decimal_nat (n div 10) @ [digit (n mod 10)])"
    by (rule decimal_nat.simps)
  have b: "decimal_nat b = (if b < 10 then [digit b] else decimal_nat (b div 10) @ [digit (b mod 10)])"
    by (rule decimal_nat.simps)
  show ?case
  proof (cases "n < 10")
    case True
    note n10 = this
    show ?thesis
    proof (cases "b < 10")
      case True
      with n10 n b "1.prems" show ?thesis by (simp add: digit_inj)
    next
      case False
      with n10 n b "1.prems" have "decimal_nat (b div 10) = []" by simp
      then show ?thesis by (simp add: decimal_nat_nonempty)
    qed
  next
    case False
    note n10 = this
    show ?thesis
    proof (cases "b < 10")
      case True
      with n10 n b "1.prems" have "decimal_nat (n div 10) = []" by simp
      then show ?thesis by (simp add: decimal_nat_nonempty)
    next
      case False
      with n10 n b "1.prems" have q: "decimal_nat (n div 10) = decimal_nat (b div 10)"
        and r: "digit (n mod 10) = digit (b mod 10)" by simp_all
      from "1.IH" [OF n10 q] have "n div 10 = b div 10" .
      moreover from r have "n mod 10 = b mod 10" by (rule digit_inj [rotated 2]) simp_all
      ultimately show ?thesis by (metis div_mult_mod_eq)
    qed
  qed
qed

lemma no_minus_nat: "CHR ''-'' \<notin> set (decimal_nat k)"
proof -
  have "CHR ''-'' \<notin> set ''0123456789''" by simp
  with set_decimal_nat [of k] show ?thesis by (rule contra_subsetD)
qed

lemma no_amp_nat: "CHR ''&'' \<notin> set (decimal_nat k)"
proof -
  have "CHR ''&'' \<notin> set ''0123456789''" by simp
  with set_decimal_nat [of k] show ?thesis by (rule contra_subsetD)
qed

lemma decimal_inj: "decimal a = decimal b \<Longrightarrow> a = b"
proof -
  assume e: "decimal a = decimal b"
  note m = no_minus_nat
  show "a = b"
  proof (cases "a < 0"; cases "b < 0")
    assume "a < 0" "b < 0"
    with e have "decimal_nat (nat (- a)) = decimal_nat (nat (- b))" by (simp add: decimal_def)
    then have "nat (- a) = nat (- b)" by (rule decimal_nat_inj)
    with \<open>a < 0\<close> \<open>b < 0\<close> show ?thesis by simp
  next
    assume "a < 0" "\<not> b < 0"
    with e have "CHR ''-'' # decimal_nat (nat (- a)) = decimal_nat (nat b)" by (simp add: decimal_def)
    then have "CHR ''-'' \<in> set (decimal_nat (nat b))" by (metis list.set_intros(1))
    with m show ?thesis by simp
  next
    assume "\<not> a < 0" "b < 0"
    with e have "decimal_nat (nat a) = CHR ''-'' # decimal_nat (nat (- b))" by (simp add: decimal_def)
    then have "CHR ''-'' \<in> set (decimal_nat (nat a))" by (metis list.set_intros(1))
    with m show ?thesis by simp
  next
    assume "\<not> a < 0" "\<not> b < 0"
    with e have "decimal_nat (nat a) = decimal_nat (nat b)" by (simp add: decimal_def)
    then have "nat a = nat b" by (rule decimal_nat_inj)
    with \<open>\<not> a < 0\<close> \<open>\<not> b < 0\<close> show ?thesis by simp
  qed
qed

lemma no_amp: "CHR ''&'' \<notin> set (decimal k)"
  by (simp add: decimal_def no_amp_nat)

lemma no_amp_size: "CHR ''&'' \<notin> set (''size='' @ decimal k)"
  using no_amp [of k] by simp

lemma posts_url_inj:
  assumes "posts_url (Fin a) n = posts_url (Fin b) m"
  shows "a = b \<and> n = m"
proof -
  from assms
  have "decimal (sint a) @ ''&size='' @ decimal (sint n) =
        decimal (sint b) @ ''&size='' @ decimal (sint m)"
    unfolding posts_url_def show_number.simps show_size_def
    by (rule same_append_eq [THEN iffD1, OF same_append_eq [THEN iffD1]])
  then have "decimal (sint a) @ CHR ''&'' # (''size='' @ decimal (sint n)) =
             decimal (sint b) @ CHR ''&'' # (''size='' @ decimal (sint m))"
    unfolding append.simps .
  then have "decimal (sint a) = decimal (sint b) \<and>
             ''size='' @ decimal (sint n) = ''size='' @ decimal (sint m)"
    by (rule append_Cons_eq_iff [OF no_amp no_amp_size, THEN iffD1])
  then have pg: "decimal (sint a) = decimal (sint b)"
    and "''size='' @ decimal (sint n) = ''size='' @ decimal (sint m)"
    by blast+
  from this(2) have sz: "decimal (sint n) = decimal (sint m)"
    by (rule same_append_eq [THEN iffD1])
  from pg have "sint a = sint b" by (rule decimal_inj)
  then have "a = b" by (rule signed_word_eqI)
  moreover from sz have "sint n = sint m" by (rule decimal_inj)
  then have "n = m" by (rule signed_word_eqI)
  ultimately show ?thesis ..
qed

text \<open>
  C1. A call of \<open>getRows\<close> for a request whose \<open>startRow\<close> is \<open>x\<close> (or absent, and
  then \<open>x\<close> is 0), on an adapter whose captured page size is \<open>n > 0\<close>, computes the
  page index \<open>floor (x / n)\<close> and fetches exactly once, the URL carrying that page index
  and the size \<open>n\<close>; by \<open>posts_url_inj\<close> no other pair of page index and size gives this
  URL. Here \<open>x\<close> and \<open>n\<close> range over the integers of 53 bits. The page index is
  this floor for a negative \<open>x\<close> as well.
\<close>

theorem getRows_page_index:
  assumes "startRow params = Some x \<or> startRow params = None \<and> x = 0"
    and "0 < sint n"
  shows "\<exists>q. sint q = \<lfloor>real_of_int (sint x) / real_of_int (sint n)\<rfloor> \<and>
             snd (snd (snd (getRows_consts n params))) = Fin q \<and>
             fetches (trace (getRows n fetch params)) = [posts_url (Fin q) n]"
proof -
  from assms(2) have "n \<noteq> 0" by auto
  then obtain q where q: "floor_div x n = Fin q" and sq: "sint q = sint x div sint n"
    using floor_div_Fin [of n x] by blast
  from assms(1) have s: "(case startRow params of None \<Rightarrow> 0 | Some s \<Rightarrow> s) = x"
    by auto
  then have page: "snd (snd (snd (getRows_consts n params))) = floor_div x n"
    by (simp add: getRows_consts_def Let_def)
  from s have "getRows_url n params = posts_url (floor_div x n) n"
    by (simp add: getRows_url_def getRows_consts_def Let_def)
  then have "fetches (trace (getRows n fetch params)) = [posts_url (Fin q) n]"
    by (simp add: fetches_getRows q)
  moreover have "sint q = \<lfloor>real_of_int (sint x) / real_of_int (sint n)\<rfloor>"
    unfolding sq by (rule floor_divide_of_int_eq [symmetric])
  ultimately show ?thesis using page q by auto
qed

text \<open>The scenario of the specification: page size 10, window 25..35, page 2.\<close>

theorem getRows_page_index_witness:
  "startRow (window (Some 25) (Some 35)) = Some 25 \<and> 0 < sint (10 :: int53) \<and>
   \<lfloor>real_of_int (sint (25 :: int53)) / real_of_int (sint (10 :: int53))\<rfloor> = 2 \<and>
   snd (snd (snd (getRows_consts 10 (window (Some 25) (Some 35))))) = Fin 2 \<and>
   fetches (trace (getRows 10 (serve envelope) (window (Some 25) (Some 35)))) =
     [''http://localhost:8088/api/posts?page=2&size=10'']"
  using getRows_page_index [of "window (Some 25) (Some 35)" 25 10 "serve envelope"]
  by (simp add: window_sel consts_window_25 fetches_getRows getRows_url_def url_eval)

subsection \<open>Defaults of the row window\<close>




subsection \<open>What the request depends on\<close>

text \<open>
  C9. Two requests with the same \<open>startRow\<close> and \<open>endRow\<close>, handled by an adapter of
  one page size, compute the same constants (the page index among them) and fetch the same
  URL, whatever their continuations and whatever the server answers.
\<close>

theorem getRows_same_window:
  assumes "startRow p = startRow q" and "endRow p = endRow q"
  shows "getRows_consts n p = getRows_consts n q \<and>
         fetches (trace (getRows n f p)) = fetches (trace (getRows n g q))"
proof -
  from assms have "getRows_consts n p = getRows_consts n q"
    by (simp add: getRows_consts_def)
  then show ?thesis
    by (simp add: fetches_getRows getRows_url_def)
qed

theorem getRows_same_window_witness:
  "startRow (window (Some 25) (Some 35)) =
     startRow ((window (Some 25) (Some 35))\<lparr>failCallback := Some TypeError\<rparr>) \<and>
   endRow (window (Some 25) (Some 35)) =
     endRow ((window (Some 25) (Some 35))\<lparr>failCallback := Some TypeError\<rparr>) \<and>
   fetches (trace (getRows 10 (serve envelope) (window (Some 25) (Some 35)))) =
   fetches (trace (getRows 10 (answer_status 500)
                     ((window (Some 25) (Some 35))\<lparr>failCallback := Some TypeError\<rparr>)))"
  using getRows_same_window [of "window (Some 25) (Some 35)"
      "(window (Some 25) (Some 35))\<lparr>failCallback := Some TypeError\<rparr>" 10
      "serve envelope" "answer_status 500"]
  by simp

text \<open>
  C10. \<open>endRow\<close> has no influence: two requests that differ in \<open>endRow\<close> only compute
  the same size and page index, and the whole run of \<open>getRows\<close> (the fetch, the
  continuations invoked with their arguments, the settled promise) is the same.
\<close>

theorem getRows_ignores_endRow:
  "snd (snd (getRows_consts n (params\<lparr>endRow := e1\<rparr>))) =
     snd (snd (getRows_consts n (params\<lparr>endRow := e2\<rparr>))) \<and>
   getRows n fetch (params\<lparr>endRow := e1\<rparr>) = getRows n fetch (params\<lparr>endRow := e2\<rparr>)"
proof -
  have c: "snd (snd (getRows_consts n (params\<lparr>endRow := e1\<rparr>))) =
           snd (snd (getRows_consts n (params\<lparr>endRow := e2\<rparr>)))"
    by (simp add: getRows_consts_def Let_def)
  have "getRows_try n fetch (params\<lparr>endRow := e1\<rparr>) =
        getRows_try n fetch (params\<lparr>endRow := e2\<rparr>)"
    by (auto simp: getRows_try_def getRows_consts_def Let_def split: sum.splits option.splits)
  then have "getRows n fetch (params\<lparr>endRow := e1\<rparr>) = getRows n fetch (params\<lparr>endRow := e2\<rparr>)"
    by (simp add: getRows_def)
  with c show ?thesis by simp
qed

subsection \<open>A page that arrives\<close>




subsection \<open>A page that does not arrive\<close>

lemma throwing_sel:
  "startRow (throwing p) = startRow p" "endRow (throwing p) = endRow p"
  "successCallback (throwing p) = (\<lambda>rows cnt. Some (JsError ''render''))"
  "failCallback (throwing p) = Some (JsError ''render'')"
  by (simp_all add: throwing_def)

lemma consts_throwing: "getRows_consts n (throwing p) = getRows_consts n p"
  by (simp add: getRows_consts_def throwing_sel)



text \<open>
  The success continuation stays uninvoked on exactly these answers: every other body,
  whatever its shape, reaches it.
\<close>

lemma getRows_success_iff:
  "successes (trace (getRows n fetch params)) = [] \<longleftrightarrow>
   fetch_failed (fetch (getRows_url n params))"
  by (auto simp: fetch_failed_def getRows_def getRows_try_def getRows_url_def get_field_def Let_def
           split: prod.splits sum.splits option.splits json.splits)




subsection \<open>How many continuations a call invokes\<close>

text \<open>
  With a success continuation that returns normally, a call invokes one continuation; in
  every case it invokes one or two.
\<close>

lemma getRows_one_continuation:
  assumes "\<And>rows cnt. successCallback params rows cnt = None"
  shows "length (continuations (trace (getRows n fetch params))) = 1"
  using assms
  by (auto simp: getRows_def getRows_try_def Let_def
           split: prod.splits sum.splits option.splits)

lemma getRows_some_continuation:
  "length (continuations (trace (getRows n fetch params))) \<in> {1, 2}"
  by (auto simp: getRows_def getRows_try_def Let_def
           split: prod.splits sum.splits option.splits)

text \<open>
  C5 at a success continuation that throws: the page arrives, the success continuation is
  invoked inside the \<open>try\<close> block, its exception reaches the \<open>catch\<close> clause, and the
  failure continuation is invoked as well. Both continuations run for one request.
\<close>

theorem getRows_both_continuations:
  "continuations (trace (getRows 10 (serve envelope) (throwing (window (Some 0) (Some 10))))) =
     [SuccessCallback (Val (JArr [post1, post2])) (Val (JNum 42)), FailCallback]"
proof -
  have c: "getRows_consts 10 (throwing (window (Some 0) (Some 10))) = (0, 10, 10, Fin 0)"
    unfolding consts_throwing by (simp add: getRows_consts_def window_sel floor_div_def)
  show ?thesis
    by (simp add: getRows_def getRows_try_def c serve_def ok_def get_field_def envelope_def
          throwing_sel)
qed

subsection \<open>Changing the page size\<close>

lemma gridApiRef_ready:
  "gridApiRef ready =
     Some \<lparr>gridOptions = [''cacheBlockSize'' \<mapsto> 10, ''paginationPageSize'' \<mapsto> 10],
           datasource = Some (Datasource 10), paginationPage = 3,
           infiniteCache = [(0, [post1, post2])],
           calls = [SetGridOption ''cacheBlockSize'' 10, SetGridOption ''paginationPageSize'' 10,
                    SetDatasource (Datasource 10)]\<rparr>"
  by (simp add: ready_def onGridReady_def initial_def some_grid_def setGridOption_def
        setDatasource_def buildDatasource_def)

text \<open>
  C7. With a grid attached, \<open>onChangePageSize next\<close> leaves it with both
  \<open>cacheBlockSize\<close> and \<open>paginationPageSize\<close> set to \<open>next\<close>, on its first page and
  with an empty block cache, through exactly four calls in this order, and changes nothing
  else of it. With no grid attached it only stores the new page size. It has no failing
  branch.
\<close>

theorem onChangePageSize_widget:
  "(\<forall>api. gridApiRef st = Some api \<longrightarrow>
      gridApiRef (onChangePageSize next st) =
        Some (api\<lparr>gridOptions :=
                    (gridOptions api)(''cacheBlockSize'' \<mapsto> next, ''paginationPageSize'' \<mapsto> next),
                  paginationPage := 0,
                  infiniteCache := [],
                  calls := calls api @ [SetGridOption ''cacheBlockSize'' next,
                                        SetGridOption ''paginationPageSize'' next,
                                        PaginationGoToFirstPage, PurgeInfiniteCache]\<rparr>)) \<and>
   (gridApiRef st = None \<longrightarrow> onChangePageSize next st = st\<lparr>pageSize := next\<rparr>) \<and>
   pageSize (onChangePageSize next st) = next"
  by (simp add: onChangePageSize_def Let_def setGridOption_def paginationGoToFirstPage_def
        purgeInfiniteCache_def split: option.splits)

theorem onChangePageSize_widget_witness:
  "gridApiRef initial = None \<and>
   onChangePageSize 50 initial = \<lparr>pageSize = 50, gridApiRef = None\<rparr> \<and>
   gridApiRef (onChangePageSize 50 ready) =
     Some \<lparr>gridOptions = [''cacheBlockSize'' \<mapsto> 50, ''paginationPageSize'' \<mapsto> 50],
           datasource = Some (Datasource 10), paginationPage = 0, infiniteCache = [],
           calls = [SetGridOption ''cacheBlockSize'' 10, SetGridOption ''paginationPageSize'' 10,
                    SetDatasource (Datasource 10),
                    SetGridOption ''cacheBlockSize'' 50, SetGridOption ''paginationPageSize'' 50,
                    PaginationGoToFirstPage, PurgeInfiniteCache]\<rparr>"
  using onChangePageSize_widget [of initial 50] onChangePageSize_widget [of ready 50]
  by (simp add: gridApiRef_ready) (simp add: initial_def)

subsection \<open>The datasource after a change of the page size\<close>

text \<open>
  A datasource answers with the page size it was built with, and \<open>onChangePageSize\<close>
  does not touch the datasource of the grid: the only \<open>setDatasource\<close> is the one of
  \<open>onGridReady\<close>. So the grid keeps asking the datasource of the old page size.
\<close>

lemma getRows_of_buildDatasource:
  "getRows_of (buildDatasource n) fetch params = getRows n fetch params"
  by (simp add: buildDatasource_def)

lemma pageSize_onChangePageSize: "pageSize (onChangePageSize next st) = next"
  by (simp add: onChangePageSize_def Let_def split: option.splits)

lemma onChangePageSize_datasource:
  "map_option datasource (gridApiRef (onChangePageSize next st)) =
   map_option datasource (gridApiRef st)"
  by (simp add: onChangePageSize_def Let_def setGridOption_def paginationGoToFirstPage_def
        purgeInfiniteCache_def split: option.splits)

lemma grid_getRows_onChangePageSize:
  "grid_getRows (onChangePageSize next st) fetch params = grid_getRows st fetch params"
  by (simp add: grid_getRows_def onChangePageSize_def Let_def setGridOption_def
        paginationGoToFirstPage_def purgeInfiniteCache_def split: option.splits)

lemma grid_getRows_ready: "grid_getRows ready fetch params = Some (getRows 10 fetch params)"
  by (simp add: grid_getRows_def gridApiRef_ready)

text \<open>
  C2 at its own scenario: page size 10, the grid ready, then \<open>onChangePageSize 50\<close>, then
  the request \<open>{startRow: 0}\<close>. The page size of the component is 50, the page index is 0,
  and the fetch still asks for size 10. A datasource built now would ask for size 50.
\<close>

theorem stale_size_after_change:
  "pageSize (onChangePageSize 50 ready) = 50 \<and>
   map_option (\<lambda>r. fetches (trace r))
     (grid_getRows (onChangePageSize 50 ready) (serve envelope) (window (Some 0) None)) =
     Some [''http://localhost:8088/api/posts?page=0&size=10''] \<and>
   fetches (trace (getRows_of (buildDatasource (pageSize (onChangePageSize 50 ready)))
                     (serve envelope) (window (Some 0) None))) =
     [''http://localhost:8088/api/posts?page=0&size=50'']"
  by (simp add: grid_getRows_onChangePageSize grid_getRows_ready fetches_getRows getRows_url_def
        getRows_consts_def window_sel floor_div_def url_eval pageSize_onChangePageSize
        getRows_of_buildDatasource)

text \<open>
  C6 at the same change of the page size, for the second block of 50 rows: the datasource
  installed in the grid is still the one built for page size 10, and the request
  \<open>{startRow: 50, endRow: 100}\<close>, issued while the page size is 50, computes its page
  index with 10 (page 5, not page 1).
\<close>

theorem stale_datasource_after_change:
  "pageSize (onChangePageSize 50 ready) = 50 \<and>
   map_option datasource (gridApiRef (onChangePageSize 50 ready)) =
     Some (Some (buildDatasource 10)) \<and>
   map_option (\<lambda>r. fetches (trace r))
     (grid_getRows (onChangePageSize 50 ready) (serve envelope) (window (Some 50) (Some 100))) =
     Some [''http://localhost:8088/api/posts?page=5&size=10'']"
  by (simp add: grid_getRows_onChangePageSize grid_getRows_ready fetches_getRows getRows_url_def
        getRows_consts_def window_sel floor_div_def url_eval onChangePageSize_datasource
        gridApiRef_ready buildDatasource_def pageSize_onChangePageSize)

end
